theory Spec2Isabelle
  imports Main "HOL-Library.Sublist"
begin

section \<open>The token-update command (command/acl/token/update)\<close>

subsection \<open>Data\<close>

text \<open>
  \<^verbatim>\<open>api.ACLTokenPolicyLink\<close>: a reference from a token to a policy. Both fields are Go
  strings, whose zero value is the empty string: the literal
  \<^verbatim>\<open>&api.ACLTokenPolicyLink{Name: n}\<close> has \<open>ID = ''''\<close>, and
  \<^verbatim>\<open>&api.ACLTokenPolicyLink{ID: i}\<close> has \<open>Name = ''''\<close>.
\<close>

record ACLTokenPolicyLink =
  ID :: string
  Name :: string

text \<open>
  The token record as the command and the agent use it (the fields of \<^verbatim>\<open>api.ACLToken\<close>
  and \<^verbatim>\<open>structs.ACLToken\<close> that the code under study reads or writes). A nil and an
  empty \<^verbatim>\<open>Policies\<close> slice are both the empty list.
\<close>

record ACLToken =
  AccessorID :: string
  SecretID :: string
  Description :: string
  Policies :: "ACLTokenPolicyLink list"
  Rules :: string
  Local :: bool
  CreateTime :: string

text \<open>The flag-bound fields of \<^verbatim>\<open>type cmd struct\<close>.\<close>

record cmd =
  tokenID :: string
  policyIDs :: "string list"
  policyNames :: "string list"
  description :: string
  mergePolicies :: bool

text \<open>
  \<^verbatim>\<open>init\<close> binds every flag to its field with its default: the empty string for
  \<^verbatim>\<open>-id\<close> and \<^verbatim>\<open>-description\<close>, false for \<^verbatim>\<open>-merge-policies\<close>, and no value
  for the repeatable \<^verbatim>\<open>-policy-id\<close> and \<^verbatim>\<open>-policy-name\<close>.
\<close>

definition init :: cmd where
  "init = \<lparr>tokenID = '''', policyIDs = [], policyNames = [], description = '''',
            mergePolicies = False\<rparr>"

text \<open>
  The API client as the command uses it. An \<^verbatim>\<open>error\<close> is represented by its text.
  The two resolvers of package \<^verbatim>\<open>command/acl\<close> return a pair \<^verbatim>\<open>(string, error)\<close>;
  \<^verbatim>\<open>TokenRead\<close> and \<^verbatim>\<open>TokenUpdate\<close> return a token or an error.
\<close>

record Client =
  GetTokenIDFromPartial :: "string \<Rightarrow> string \<times> string option"
  GetPolicyIDFromPartial :: "string \<Rightarrow> string \<times> string option"
  TokenRead :: "string \<Rightarrow> string + ACLToken"
  TokenUpdate :: "ACLToken \<Rightarrow> string + ACLToken"

text \<open>
  What \<^verbatim>\<open>Run\<close> takes from outside the command: the standard library's flag parser, which
  fills the bound fields from the arguments or fails, and \<^verbatim>\<open>c.http.APIClient()\<close>.
\<close>

record Env =
  flagsParse :: "cmd \<Rightarrow> string list \<Rightarrow> string + cmd"
  APIClient :: "string + Client"

text \<open>What a run does that is visible outside: lines on the UI and the update sent to the agent.\<close>

datatype event =
  UI_Error string
| UI_Info string
| ACL_TokenUpdate ACLToken
| PrintToken ACLToken bool

subsection \<open>The reconciliation loops of \<^verbatim>\<open>Run\<close>\<close>

text \<open>
  The inner loops of the merge branch: scan the token's links until one carries the name
  (the ID), then \<^verbatim>\<open>break\<close>.
\<close>

fun foundName :: "ACLTokenPolicyLink list \<Rightarrow> string \<Rightarrow> bool" where
  "foundName [] policyName = False"
| "foundName (link # links) policyName =
     (if Name link = policyName then True else foundName links policyName)"

fun foundID :: "ACLTokenPolicyLink list \<Rightarrow> string \<Rightarrow> bool" where
  "foundID [] policyID = False"
| "foundID (link # links) policyID =
     (if ID link = policyID then True else foundID links policyID)"

text \<open>
  \<^verbatim>\<open>for _, policyName := range c.policyNames\<close> of the merge branch. The scan runs over
  \<^verbatim>\<open>token.Policies\<close> as it is at that iteration, links appended by earlier iterations
  included.
\<close>

fun mergeNames :: "ACLTokenPolicyLink list \<Rightarrow> string list \<Rightarrow> ACLTokenPolicyLink list" where
  "mergeNames policies [] = policies"
| "mergeNames policies (policyName # rest) =
     mergeNames
       (if \<not> foundName policies policyName
        then policies @ [\<lparr>ID = '''', Name = policyName\<rparr>]
        else policies)
       rest"

text \<open>
  \<^verbatim>\<open>for _, policyID := range c.policyIDs\<close> of the merge branch. The resolver's first
  result shadows the loop variable, so the error line prints the returned string.
\<close>

fun mergeIDs :: "Client \<Rightarrow> ACLTokenPolicyLink list \<Rightarrow> string list
    \<Rightarrow> string + ACLTokenPolicyLink list" where
  "mergeIDs client policies [] = Inr policies"
| "mergeIDs client policies (partialID # rest) =
     (case GetPolicyIDFromPartial client partialID of
        (policyID, Some err) \<Rightarrow>
          Inl (''Error resolving policy ID '' @ policyID @ '': '' @ err)
      | (policyID, None) \<Rightarrow>
          mergeIDs client
            (if \<not> foundID policies policyID
             then policies @ [\<lparr>ID = policyID, Name = ''''\<rparr>]
             else policies)
            rest)"

text \<open>The two loops of the replace branch append without looking.\<close>

fun replaceNames :: "ACLTokenPolicyLink list \<Rightarrow> string list \<Rightarrow> ACLTokenPolicyLink list" where
  "replaceNames policies [] = policies"
| "replaceNames policies (policyName # rest) =
     replaceNames (policies @ [\<lparr>ID = '''', Name = policyName\<rparr>]) rest"

fun replaceIDs :: "Client \<Rightarrow> ACLTokenPolicyLink list \<Rightarrow> string list
    \<Rightarrow> string + ACLTokenPolicyLink list" where
  "replaceIDs client policies [] = Inr policies"
| "replaceIDs client policies (partialID # rest) =
     (case GetPolicyIDFromPartial client partialID of
        (policyID, Some err) \<Rightarrow>
          Inl (''Error resolving policy ID '' @ policyID @ '': '' @ err)
      | (policyID, None) \<Rightarrow>
          replaceIDs client (policies @ [\<lparr>ID = policyID, Name = ''''\<rparr>]) rest)"

text \<open>
  The \<^verbatim>\<open>if c.mergePolicies { ... } else { ... }\<close> block: the token with its new links, or
  the error line of a failed resolution (after which \<^verbatim>\<open>Run\<close> returns 1).
\<close>

definition reconcile :: "Client \<Rightarrow> cmd \<Rightarrow> ACLToken \<Rightarrow> string + ACLToken" where
  "reconcile client c token =
     (if mergePolicies c then
        (case mergeIDs client (mergeNames (Policies token) (policyNames c)) (policyIDs c) of
           Inl msg \<Rightarrow> Inl msg
         | Inr policies \<Rightarrow> Inr (token\<lparr>Policies := policies\<rparr>))
      else
        (case replaceIDs client (replaceNames [] (policyNames c)) (policyIDs c) of
           Inl msg \<Rightarrow> Inl msg
         | Inr policies \<Rightarrow> Inr (token\<lparr>Policies := policies\<rparr>)))"

subsection \<open>\<^verbatim>\<open>Run\<close>\<close>

text \<open>The exit code and the events of a run, in order.\<close>

definition Run :: "Env \<Rightarrow> cmd \<Rightarrow> string list \<Rightarrow> int \<times> event list" where
  "Run env c0 args =
     (case flagsParse env c0 args of
        Inl err \<Rightarrow> (1, [])
      | Inr c \<Rightarrow>
          if tokenID c = '''' then
            (1, [UI_Error ''Cannot update a token without specifying the -id parameter''])
          else
            (case APIClient env of
               Inl err \<Rightarrow> (1, [UI_Error (''Error connecting to Consul agent: '' @ err)])
             | Inr client \<Rightarrow>
                 (case GetTokenIDFromPartial client (tokenID c) of
                    (tokenID', Some err) \<Rightarrow>
                      (1, [UI_Error (''Error determining token ID: '' @ err)])
                  | (tokenID', None) \<Rightarrow>
                      (case TokenRead client tokenID' of
                         Inl err \<Rightarrow>
                           (1, [UI_Error (''Error when retrieving current token: '' @ err)])
                       | Inr token \<Rightarrow>
                           (case reconcile client c (token\<lparr>Description := description c\<rparr>) of
                              Inl msg \<Rightarrow> (1, [UI_Error msg])
                            | Inr token' \<Rightarrow>
                                (case TokenUpdate client token' of
                                   Inl err \<Rightarrow>
                                     (1, [ACL_TokenUpdate token',
                                          UI_Error (''Failed to update token '' @ tokenID'
                                                    @ '': '' @ err)])
                                 | Inr updated \<Rightarrow>
                                     (0, [ACL_TokenUpdate token',
                                          UI_Info ''Token updated successfully.'',
                                          PrintToken updated True])))))))"

section \<open>The agent's ACL endpoints (agent/acl_endpoint.go)\<close>

subsection \<open>Requests, responses and errors\<close>

datatype SyntaxVersion = SyntaxLegacy | SyntaxCurrent

record ACLPolicy =
  pol_ID :: string
  pol_Name :: string
  pol_Description :: string
  pol_Rules :: string
  pol_Syntax :: SyntaxVersion

datatype ACLTokenIDType = ACLTokenSecret | ACLTokenAccessor

datatype ACLPolicyIDType = ACLPolicyID | ACLPolicyName

text \<open>
  Structures of package \<^verbatim>\<open>structs\<close> that the endpoints only pass on are kept opaque,
  each value standing for itself as a string.
\<close>

type_synonym QuerySource = string
type_synonym ACLReplicationStatus = string
type_synonym ACLTokenListStub = string

record QueryOptions =
  qo_Token :: string
  qo_MinQueryIndex :: nat
  qo_AllowStale :: bool
  qo_RequireConsistent :: bool

record QueryMeta =
  qm_Index :: nat
  qm_LastContact :: nat
  qm_KnownLeader :: bool

text \<open>The request structures, with the fields the endpoints set.\<close>

record DCSpecificRequest =
  dc_Datacenter :: string
  dc_Source :: QuerySource
  dc_QueryOptions :: QueryOptions

record ACLTokenReadRequest =
  tr_Datacenter :: string
  tr_TokenID :: string
  tr_TokenIDType :: ACLTokenIDType
  tr_QueryOptions :: QueryOptions

record ACLPolicyReadRequest =
  pr_Datacenter :: string
  pr_PolicyID :: string
  pr_PolicyIDType :: ACLPolicyIDType
  pr_QueryOptions :: QueryOptions

record ACLPolicyUpsertRequest =
  pu_Datacenter :: string
  pu_Policy :: ACLPolicy
  pu_Token :: string

record ACLPolicyDeleteRequest =
  pd_Datacenter :: string
  pd_PolicyID :: string
  pd_PolicyIDType :: ACLPolicyIDType
  pd_Token :: string

record ACLTokenListRequest =
  tl_IncludeLocal :: bool
  tl_IncludeGlobal :: bool
  tl_Policy :: string
  tl_Datacenter :: string
  tl_QueryOptions :: QueryOptions

record ACLTokenUpsertRequest =
  tu_Datacenter :: string
  tu_ACLToken :: ACLToken
  tu_Token :: string

record ACLTokenDeleteRequest =
  td_Datacenter :: string
  td_TokenID :: string
  td_Token :: string

text \<open>The reply structures; a nil pointer is \<open>None\<close>.\<close>

record ACLTokenResponse =
  rsp_Token :: "ACLToken option"
  rsp_TokenMeta :: QueryMeta

record ACLPolicyResponse =
  rsp_Policy :: "ACLPolicy option"
  rsp_PolicyMeta :: QueryMeta

record ACLPolicyMultiResponse =
  rsp_Policies :: "ACLPolicy list"
  rsp_PoliciesMeta :: QueryMeta

record ACLTokensResponse =
  rsp_Tokens :: "ACLToken list"
  rsp_TokensMeta :: QueryMeta

text \<open>The zero value that a composite literal leaves in the fields it does not set.\<close>

definition zeroQueryOptions :: QueryOptions where
  "zeroQueryOptions = \<lparr>qo_Token = '''', qo_MinQueryIndex = 0, qo_AllowStale = False,
                         qo_RequireConsistent = False\<rparr>"

text \<open>
  The part of \<^verbatim>\<open>*http.Request\<close> the endpoints read: the method, \<^verbatim>\<open>URL.Path\<close>, the
  query parameters and the body.
\<close>

record Request =
  Method :: string
  Path :: string
  Query :: "(string \<times> string) list"
  Body :: string

text \<open>\<^verbatim>\<open>url.Values.Get\<close>: the first value of the key, the empty string without one.\<close>

definition QueryGet :: "(string \<times> string) list \<Rightarrow> string \<Rightarrow> string" where
  "QueryGet q k = (case map_of q k of None \<Rightarrow> '''' | Some v \<Rightarrow> v)"

text \<open>
  What the endpoints do to the \<^verbatim>\<open>http.ResponseWriter\<close>: the status code, once
  written, the body, and the metadata \<^verbatim>\<open>setMeta\<close> put in the headers. As in
  \<^verbatim>\<open>net/http\<close>, the first \<^verbatim>\<open>WriteHeader\<close> wins and a write without one sends 200.
\<close>

record ResponseWriter =
  statusCode :: "nat option"
  body :: string
  meta :: "QueryMeta option"

definition StatusOK :: nat where "StatusOK = 200"

definition StatusUnauthorized :: nat where "StatusUnauthorized = 401"

definition StatusForbidden :: nat where "StatusForbidden = 403"

definition WriteHeader :: "ResponseWriter \<Rightarrow> nat \<Rightarrow> ResponseWriter" where
  "WriteHeader resp code =
     (case statusCode resp of None \<Rightarrow> resp\<lparr>statusCode := Some code\<rparr> | Some _ \<Rightarrow> resp)"

definition Write :: "ResponseWriter \<Rightarrow> string \<Rightarrow> ResponseWriter" where
  "Write resp s = (WriteHeader resp StatusOK)\<lparr>body := body resp @ s\<rparr>"

text \<open>\<^verbatim>\<open>setMeta(resp, &out.QueryMeta)\<close>, of agent/http.go: the metadata goes to the headers.\<close>

definition setMeta :: "ResponseWriter \<Rightarrow> QueryMeta \<Rightarrow> ResponseWriter" where
  "setMeta resp m = resp\<lparr>meta := Some m\<rparr>"

text \<open>
  The errors an endpoint returns. \<open>Errorf\<close> is the value of \<^verbatim>\<open>fmt.Errorf\<close> with the
  formatted text; \<open>RPCError\<close> is an error of \<^verbatim>\<open>s.agent.RPC\<close> handed back as it came,
  with its text.
\<close>

datatype error =
  BadRequestError string
| MethodNotAllowedError string "string list"
| ErrNotFound
| Errorf string
| RPCError string

text \<open>The \<^verbatim>\<open>interface{}\<close> an endpoint returns.\<close>

datatype result =
  NilResult
| BootstrapResponse string ACLToken
| ReplicationStatusResult ACLReplicationStatus
| PoliciesResult "ACLPolicy list"
| PolicyResult ACLPolicy
| TokenStubsResult "ACLTokenListStub list"
| TokenResult ACLToken
| BoolResult bool

text \<open>The calls an endpoint makes to the servers and to the rule translator.\<close>

datatype rpc_call =
  ACL_Bootstrap DCSpecificRequest
| ACL_ReplicationStatus DCSpecificRequest
| ACL_TokenRead ACLTokenReadRequest
| ACL_PolicyList DCSpecificRequest
| ACL_PolicyRead ACLPolicyReadRequest
| ACL_PolicyUpsert ACLPolicyUpsertRequest
| ACL_PolicyDelete ACLPolicyDeleteRequest
| ACL_TokenList ACLTokenListRequest
| ACL_TokenUpsert ACLTokenUpsertRequest
| ACL_TokenDelete ACLTokenDeleteRequest
| ACL_TokenClone ACLTokenUpsertRequest
| ACL_TokenUpgrade ACLTokenUpsertRequest
| TranslateLegacyRulesCall string

type_synonym Outcome = "ResponseWriter \<times> result \<times> error option \<times> rpc_call list"

text \<open>
  The server: its configuration and everything the endpoints call that lives outside
  agent/acl_endpoint.go. An RPC takes the request and gives the error, if any, and the reply
  structure as the call left it. \<^verbatim>\<open>parse\<close> reads the datacenter and the query options
  into the request (both in and out) and says whether it already answered;
  \<^verbatim>\<open>decodeBody\<close> gives its error, if any, and the decoded payload (for tokens with the
  \<^verbatim>\<open>fixCreateTime\<close> hook applied).
\<close>

record HTTPServer =
  ACLsEnabled :: bool
  Datacenter :: string
  ACLBootstrapNotAllowedErr :: string
  PermissionDeniedError :: "string \<Rightarrow> string"
  TranslateLegacyRules :: "string \<Rightarrow> string + string"
  parse :: "ResponseWriter \<Rightarrow> Request \<Rightarrow> string \<Rightarrow> QueryOptions
            \<Rightarrow> ResponseWriter \<times> string \<times> QueryOptions \<times> bool"
  parseSource :: "Request \<Rightarrow> QuerySource"
  parseToken :: "Request \<Rightarrow> string"
  decodePolicyBody :: "Request \<Rightarrow> string option \<times> ACLPolicy"
  decodeTokenBody :: "Request \<Rightarrow> string option \<times> ACLToken"
  tokenStub :: "ACLToken \<Rightarrow> ACLTokenListStub"
  rpcBootstrap :: "DCSpecificRequest \<Rightarrow> string option \<times> ACLToken"
  rpcReplicationStatus :: "DCSpecificRequest \<Rightarrow> string option \<times> ACLReplicationStatus"
  rpcTokenRead :: "ACLTokenReadRequest \<Rightarrow> string option \<times> ACLTokenResponse"
  rpcPolicyList :: "DCSpecificRequest \<Rightarrow> string option \<times> ACLPolicyMultiResponse"
  rpcPolicyRead :: "ACLPolicyReadRequest \<Rightarrow> string option \<times> ACLPolicyResponse"
  rpcPolicyUpsert :: "ACLPolicyUpsertRequest \<Rightarrow> string option \<times> ACLPolicy"
  rpcPolicyDelete :: "ACLPolicyDeleteRequest \<Rightarrow> string option \<times> string"
  rpcTokenList :: "ACLTokenListRequest \<Rightarrow> string option \<times> ACLTokensResponse"
  rpcTokenUpsert :: "ACLTokenUpsertRequest \<Rightarrow> string option \<times> ACLToken"
  rpcTokenDelete :: "ACLTokenDeleteRequest \<Rightarrow> string option \<times> string"
  rpcTokenClone :: "ACLTokenUpsertRequest \<Rightarrow> string option \<times> ACLToken"
  rpcTokenUpgrade :: "ACLTokenUpsertRequest \<Rightarrow> string option \<times> ACLToken"

subsection \<open>String functions of the standard library\<close>

text \<open>\<^verbatim>\<open>strings.Contains(s, substr)\<close>: \<open>substr\<close> starts at some position of \<open>s\<close>.\<close>

fun Contains :: "string \<Rightarrow> string \<Rightarrow> bool" where
  "Contains [] substr = (substr = [])"
| "Contains (c # s) substr = (prefix substr (c # s) \<or> Contains s substr)"

text \<open>\<^verbatim>\<open>strings.TrimPrefix(s, p)\<close>: \<open>s\<close> without the leading \<open>p\<close>, or \<open>s\<close> itself.\<close>

definition TrimPrefix :: "string \<Rightarrow> string \<Rightarrow> string" where
  "TrimPrefix s p = (if prefix p s then drop (length p) s else s)"

subsection \<open>The endpoints\<close>

text \<open>
  \<^verbatim>\<open>checkACLDisabled\<close>: the response after the check, and whether ACLs are disabled (the
  caller then stops).
\<close>

definition checkACLDisabled :: "HTTPServer \<Rightarrow> ResponseWriter \<Rightarrow> Request \<Rightarrow> ResponseWriter \<times> bool" where
  "checkACLDisabled s resp req =
     (if ACLsEnabled s then (resp, False)
      else (Write (WriteHeader resp StatusUnauthorized) ''ACL support disabled'', True))"

definition ACLBootstrap :: "HTTPServer \<Rightarrow> ResponseWriter \<Rightarrow> Request \<Rightarrow> Outcome" where
  "ACLBootstrap s resp req =
     (let (resp, disabled) = checkACLDisabled s resp req in
      if disabled then (resp, NilResult, None, [])
      else
        let args = \<lparr>dc_Datacenter = Datacenter s, dc_Source = '''',
                    dc_QueryOptions = zeroQueryOptions\<rparr> in
        (case rpcBootstrap s args of
           (Some err, out) \<Rightarrow>
             if Contains err (ACLBootstrapNotAllowedErr s) then
               (Write (WriteHeader resp StatusForbidden) (PermissionDeniedError s err),
                NilResult, None, [ACL_Bootstrap args])
             else (resp, NilResult, Some (RPCError err), [ACL_Bootstrap args])
         | (None, out) \<Rightarrow>
             (resp, BootstrapResponse (SecretID out) out, None, [ACL_Bootstrap args])))"

definition ACLReplicationStatus :: "HTTPServer \<Rightarrow> ResponseWriter \<Rightarrow> Request \<Rightarrow> Outcome" where
  "ACLReplicationStatus s resp req =
     (let (resp, disabled) = checkACLDisabled s resp req in
      if disabled then (resp, NilResult, None, [])
      else
        let source = parseSource s req;
            (resp, dc, opts, done) = parse s resp req '''' zeroQueryOptions in
        if done then (resp, NilResult, None, [])
        else
          let args = \<lparr>dc_Datacenter = dc, dc_Source = source, dc_QueryOptions = opts\<rparr> in
          (case rpcReplicationStatus s args of
             (Some err, out) \<Rightarrow> (resp, NilResult, Some (RPCError err), [ACL_ReplicationStatus args])
           | (None, out) \<Rightarrow>
               (resp, ReplicationStatusResult out, None, [ACL_ReplicationStatus args])))"

text \<open>
  In the endpoints below \<^verbatim>\<open>defer setMeta(resp, &out.QueryMeta)\<close> runs on every return
  after it, with the metadata the RPC left in the reply.
\<close>

definition ACLRulesTranslateLegacyToken :: "HTTPServer \<Rightarrow> ResponseWriter \<Rightarrow> Request \<Rightarrow> Outcome" where
  "ACLRulesTranslateLegacyToken s resp req =
     (let tokenId = TrimPrefix (Path req) ''/v1/acl/rules/translate/'' in
      if tokenId = '''' then (resp, NilResult, Some (BadRequestError ''Missing token ID''), [])
      else
        let (resp, dc, opts, done) = parse s resp req (Datacenter s) zeroQueryOptions in
        if done then (resp, NilResult, None, [])
        else
          let args = \<lparr>tr_Datacenter = (if dc = '''' then Datacenter s else dc),
                      tr_TokenID = tokenId, tr_TokenIDType = ACLTokenAccessor,
                      tr_QueryOptions = opts\<lparr>qo_MinQueryIndex := 0\<rparr>\<rparr> in
          (case rpcTokenRead s args of
             (Some err, out) \<Rightarrow>
               (setMeta resp (rsp_TokenMeta out), NilResult, Some (RPCError err),
                [ACL_TokenRead args])
           | (None, out) \<Rightarrow>
               (case rsp_Token out of
                  None \<Rightarrow>
                    (setMeta resp (rsp_TokenMeta out), NilResult, Some ErrNotFound,
                     [ACL_TokenRead args])
                | Some token \<Rightarrow>
                    if Rules token = '''' then
                      (setMeta resp (rsp_TokenMeta out), NilResult,
                       Some (Errorf ''The specified token does not have any rules set''),
                       [ACL_TokenRead args])
                    else
                      (case TranslateLegacyRules s (Rules token) of
                         Inl err \<Rightarrow>
                           (setMeta resp (rsp_TokenMeta out), NilResult,
                            Some (Errorf (''Failed to parse legacy rules: '' @ err)),
                            [ACL_TokenRead args, TranslateLegacyRulesCall (Rules token)])
                       | Inr translated \<Rightarrow>
                           (setMeta (Write resp translated) (rsp_TokenMeta out), NilResult,
                            None,
                            [ACL_TokenRead args, TranslateLegacyRulesCall (Rules token)])))))"

text \<open>\<^verbatim>\<open>ACLPolicyList\<close> builds the list of stubs and returns \<^verbatim>\<open>out.Policies\<close>.\<close>

definition ACLPolicyList :: "HTTPServer \<Rightarrow> ResponseWriter \<Rightarrow> Request \<Rightarrow> Outcome" where
  "ACLPolicyList s resp req =
     (let (resp, disabled) = checkACLDisabled s resp req in
      if disabled then (resp, NilResult, None, [])
      else
        let (resp, dc, opts, done) = parse s resp req '''' zeroQueryOptions in
        if done then (resp, NilResult, None, [])
        else
          let args = \<lparr>dc_Datacenter = (if dc = '''' then Datacenter s else dc),
                      dc_Source = '''', dc_QueryOptions = opts\<rparr> in
          (case rpcPolicyList s args of
             (Some err, out) \<Rightarrow>
               (setMeta resp (rsp_PoliciesMeta out), NilResult, Some (RPCError err),
                [ACL_PolicyList args])
           | (None, out) \<Rightarrow>
               (setMeta resp (rsp_PoliciesMeta out), PoliciesResult (rsp_Policies out), None,
                [ACL_PolicyList args])))"

definition ACLPolicyRead :: "HTTPServer \<Rightarrow> ResponseWriter \<Rightarrow> Request \<Rightarrow> string \<Rightarrow> ACLPolicyIDType \<Rightarrow> Outcome" where
  "ACLPolicyRead s resp req policyID policyIDType =
     (let (resp, dc, opts, done) = parse s resp req (Datacenter s) zeroQueryOptions in
      if done then (resp, NilResult, None, [])
      else
        let args = \<lparr>pr_Datacenter = (if dc = '''' then Datacenter s else dc),
                    pr_PolicyID = policyID, pr_PolicyIDType = policyIDType,
                    pr_QueryOptions = opts\<rparr> in
        (case rpcPolicyRead s args of
           (Some err, out) \<Rightarrow>
             (setMeta resp (rsp_PolicyMeta out), NilResult, Some (RPCError err),
              [ACL_PolicyRead args])
         | (None, out) \<Rightarrow>
             (case rsp_Policy out of
                None \<Rightarrow>
                  (setMeta resp (rsp_PolicyMeta out), NilResult, Some ErrNotFound,
                   [ACL_PolicyRead args])
              | Some policy \<Rightarrow>
                  (setMeta resp (rsp_PolicyMeta out), PolicyResult policy, None,
                   [ACL_PolicyRead args]))))"

text \<open>
  \<^verbatim>\<open>ACLPolicyWrite\<close>. The \<^verbatim>\<open>switch policyIDType\<close> either returns the mismatch error or
  leaves the payload as the RPC gets it; its name case assigns the empty string to an empty
  \<^verbatim>\<open>args.Policy.Name\<close>.
\<close>

definition ACLPolicyWrite :: "HTTPServer \<Rightarrow> ResponseWriter \<Rightarrow> Request \<Rightarrow> string \<Rightarrow> ACLPolicyIDType \<Rightarrow> Outcome" where
  "ACLPolicyWrite s resp req policyID policyIDType =
     (let token = parseToken s req in
      case decodePolicyBody s req of
        (Some err, decoded) \<Rightarrow>
          (resp, NilResult, Some (BadRequestError (''Policy decoding failed: '' @ err)), [])
      | (None, decoded) \<Rightarrow>
          let policy = decoded\<lparr>pol_Syntax := SyntaxCurrent\<rparr> in
          (case
             (case policyIDType of
                ACLPolicyID \<Rightarrow>
                  if policyID \<noteq> '''' \<and> pol_ID policy \<noteq> '''' \<and> pol_ID policy \<noteq> policyID then
                    Inl (BadRequestError ''Policy ID in URL and payload do not match'')
                  else if pol_ID policy = '''' then Inr (policy\<lparr>pol_ID := policyID\<rparr>)
                  else Inr policy
              | ACLPolicyName \<Rightarrow>
                  if policyID \<noteq> '''' \<and> pol_Name policy \<noteq> '''' \<and> pol_Name policy \<noteq> policyID then
                    Inl (BadRequestError ''Policy Name in URL and payload do not match'')
                  else if pol_Name policy = '''' then Inr (policy\<lparr>pol_Name := ''''\<rparr>)
                  else Inr policy)
           of
             Inl e \<Rightarrow> (resp, NilResult, Some e, [])
           | Inr policy \<Rightarrow>
               let args = \<lparr>pu_Datacenter = Datacenter s, pu_Policy = policy, pu_Token = token\<rparr> in
               (case rpcPolicyUpsert s args of
                  (Some err, out) \<Rightarrow> (resp, NilResult, Some (RPCError err), [ACL_PolicyUpsert args])
                | (None, out) \<Rightarrow> (resp, PolicyResult out, None, [ACL_PolicyUpsert args]))))"

definition ACLPolicyDelete :: "HTTPServer \<Rightarrow> ResponseWriter \<Rightarrow> Request \<Rightarrow> string \<Rightarrow> ACLPolicyIDType \<Rightarrow> Outcome" where
  "ACLPolicyDelete s resp req policyID policyIDType =
     (let args = \<lparr>pd_Datacenter = Datacenter s, pd_PolicyID = policyID,
                  pd_PolicyIDType = policyIDType, pd_Token = parseToken s req\<rparr> in
      case rpcPolicyDelete s args of
        (Some err, out) \<Rightarrow> (resp, NilResult, Some (RPCError err), [ACL_PolicyDelete args])
      | (None, out) \<Rightarrow> (resp, BoolResult True, None, [ACL_PolicyDelete args]))"

definition ACLPolicyCRUD :: "HTTPServer \<Rightarrow> ResponseWriter \<Rightarrow> Request \<Rightarrow> Outcome" where
  "ACLPolicyCRUD s resp req =
     (let (resp, disabled) = checkACLDisabled s resp req in
      if disabled then (resp, NilResult, None, [])
      else
        (case
           (if Method req = ''GET'' then Some ACLPolicyRead
            else if Method req = ''PUT'' then Some ACLPolicyWrite
            else if Method req = ''DELETE'' then Some ACLPolicyDelete
            else None)
         of
           None \<Rightarrow>
             (resp, NilResult,
              Some (MethodNotAllowedError (Method req) [''GET'', ''PUT'', ''DELETE'']), [])
         | Some fn \<Rightarrow>
             let policyID = TrimPrefix (Path req) ''/v1/acl/policy/'' in
             if policyID = '''' \<and> Method req \<noteq> ''PUT'' then
               (resp, NilResult, Some (BadRequestError ''Missing policy ID''), [])
             else
               let idType = QueryGet (Query req) ''idType'' in
               if idType \<noteq> '''' \<and> idType \<noteq> ''id'' \<and> idType \<noteq> ''name'' then
                 (resp, NilResult,
                  Some (BadRequestError ''Invalid value for idType parameter''), [])
               else
                 fn s resp req policyID
                   (if idType = ''name'' then ACLPolicyName else ACLPolicyID)))"

definition ACLPolicyCreate :: "HTTPServer \<Rightarrow> ResponseWriter \<Rightarrow> Request \<Rightarrow> Outcome" where
  "ACLPolicyCreate s resp req = ACLPolicyWrite s resp req '''' ACLPolicyID"

definition ACLTokenList :: "HTTPServer \<Rightarrow> ResponseWriter \<Rightarrow> Request \<Rightarrow> Outcome" where
  "ACLTokenList s resp req =
     (let (resp, disabled) = checkACLDisabled s resp req in
      if disabled then (resp, NilResult, None, [])
      else
        let (resp, dc, opts, done) = parse s resp req '''' zeroQueryOptions in
        if done then (resp, NilResult, None, [])
        else
          let args = \<lparr>tl_IncludeLocal = True, tl_IncludeGlobal = True,
                      tl_Policy = QueryGet (Query req) ''policy'',
                      tl_Datacenter = (if dc = '''' then Datacenter s else dc),
                      tl_QueryOptions = opts\<rparr> in
          (case rpcTokenList s args of
             (Some err, out) \<Rightarrow>
               (setMeta resp (rsp_TokensMeta out), NilResult, Some (RPCError err),
                [ACL_TokenList args])
           | (None, out) \<Rightarrow>
               (setMeta resp (rsp_TokensMeta out),
                TokenStubsResult (map (tokenStub s) (rsp_Tokens out)), None,
                [ACL_TokenList args])))"

definition ACLTokenRead :: "HTTPServer \<Rightarrow> ResponseWriter \<Rightarrow> Request \<Rightarrow> string \<Rightarrow> Outcome" where
  "ACLTokenRead s resp req tokenId =
     (let (resp, dc, opts, done) = parse s resp req (Datacenter s) zeroQueryOptions in
      if done then (resp, NilResult, None, [])
      else
        let args = \<lparr>tr_Datacenter = (if dc = '''' then Datacenter s else dc),
                    tr_TokenID = tokenId, tr_TokenIDType = ACLTokenAccessor,
                    tr_QueryOptions = opts\<rparr> in
        (case rpcTokenRead s args of
           (Some err, out) \<Rightarrow>
             (setMeta resp (rsp_TokenMeta out), NilResult, Some (RPCError err),
              [ACL_TokenRead args])
         | (None, out) \<Rightarrow>
             (case rsp_Token out of
                None \<Rightarrow>
                  (setMeta resp (rsp_TokenMeta out), NilResult, Some ErrNotFound,
                   [ACL_TokenRead args])
              | Some token \<Rightarrow>
                  (setMeta resp (rsp_TokenMeta out), TokenResult token, None,
                   [ACL_TokenRead args]))))"

text \<open>
  \<^verbatim>\<open>ACLTokenWrite\<close>: an empty payload Accessor ID takes the one of the URL; two that
  differ are refused before the RPC.
\<close>

definition ACLTokenWrite :: "HTTPServer \<Rightarrow> ResponseWriter \<Rightarrow> Request \<Rightarrow> string \<Rightarrow> Outcome" where
  "ACLTokenWrite s resp req tokenId =
     (let token = parseToken s req in
      case decodeTokenBody s req of
        (Some err, decoded) \<Rightarrow>
          (resp, NilResult, Some (BadRequestError (''Token decoding failed: '' @ err)), [])
      | (None, decoded) \<Rightarrow>
          (case
             (if AccessorID decoded = '''' then Inr (decoded\<lparr>AccessorID := tokenId\<rparr>)
              else if tokenId \<noteq> '''' \<and> AccessorID decoded \<noteq> tokenId then
                Inl (BadRequestError ''Token Accessor ID in URL and payload do not match'')
              else Inr decoded)
           of
             Inl e \<Rightarrow> (resp, NilResult, Some e, [])
           | Inr aclToken \<Rightarrow>
               let args = \<lparr>tu_Datacenter = Datacenter s, tu_ACLToken = aclToken,
                           tu_Token = token\<rparr> in
               (case rpcTokenUpsert s args of
                  (Some err, out) \<Rightarrow> (resp, NilResult, Some (RPCError err), [ACL_TokenUpsert args])
                | (None, out) \<Rightarrow> (resp, TokenResult out, None, [ACL_TokenUpsert args]))))"

definition ACLTokenDelete :: "HTTPServer \<Rightarrow> ResponseWriter \<Rightarrow> Request \<Rightarrow> string \<Rightarrow> Outcome" where
  "ACLTokenDelete s resp req tokenId =
     (let args = \<lparr>td_Datacenter = Datacenter s, td_TokenID = tokenId,
                  td_Token = parseToken s req\<rparr> in
      case rpcTokenDelete s args of
        (Some err, out) \<Rightarrow> (resp, NilResult, Some (RPCError err), [ACL_TokenDelete args])
      | (None, out) \<Rightarrow> (resp, BoolResult True, None, [ACL_TokenDelete args]))"

definition ACLTokenCRUD :: "HTTPServer \<Rightarrow> ResponseWriter \<Rightarrow> Request \<Rightarrow> Outcome" where
  "ACLTokenCRUD s resp req =
     (let (resp, disabled) = checkACLDisabled s resp req in
      if disabled then (resp, NilResult, None, [])
      else
        (case
           (if Method req = ''GET'' then Some ACLTokenRead
            else if Method req = ''PUT'' then Some ACLTokenWrite
            else if Method req = ''DELETE'' then Some ACLTokenDelete
            else None)
         of
           None \<Rightarrow>
             (resp, NilResult,
              Some (MethodNotAllowedError (Method req) [''GET'', ''PUT'', ''DELETE'']), [])
         | Some fn \<Rightarrow>
             let tokenId = TrimPrefix (Path req) ''/v1/acl/token/'' in
             if tokenId = '''' \<and> Method req \<noteq> ''PUT'' then
               (resp, NilResult, Some (BadRequestError ''Missing token ID''), [])
             else fn s resp req tokenId))"

definition ACLTokenSelf :: "HTTPServer \<Rightarrow> ResponseWriter \<Rightarrow> Request \<Rightarrow> Outcome" where
  "ACLTokenSelf s resp req =
     (let (resp, dc, opts, done) = parse s resp req '''' zeroQueryOptions in
      if done then (resp, NilResult, None, [])
      else
        let args = \<lparr>tr_Datacenter = (if dc = '''' then Datacenter s else dc),
                    tr_TokenID = qo_Token opts, tr_TokenIDType = ACLTokenSecret,
                    tr_QueryOptions = opts\<rparr> in
        (case rpcTokenRead s args of
           (Some err, out) \<Rightarrow>
             (setMeta resp (rsp_TokenMeta out), NilResult, Some (RPCError err),
              [ACL_TokenRead args])
         | (None, out) \<Rightarrow>
             (case rsp_Token out of
                None \<Rightarrow>
                  (setMeta resp (rsp_TokenMeta out), NilResult, Some ErrNotFound,
                   [ACL_TokenRead args])
              | Some token \<Rightarrow>
                  (setMeta resp (rsp_TokenMeta out), TokenResult token, None,
                   [ACL_TokenRead args]))))"

definition ACLTokenCreate :: "HTTPServer \<Rightarrow> ResponseWriter \<Rightarrow> Request \<Rightarrow> Outcome" where
  "ACLTokenCreate s resp req =
     (let (resp, disabled) = checkACLDisabled s resp req in
      if disabled then (resp, NilResult, None, [])
      else ACLTokenWrite s resp req '''')"

text \<open>\<^verbatim>\<open>ACLTokenClone\<close> accepts an empty body: the decoder's \<^verbatim>\<open>EOF\<close> is not an error.\<close>

definition ACLTokenClone :: "HTTPServer \<Rightarrow> ResponseWriter \<Rightarrow> Request \<Rightarrow> Outcome" where
  "ACLTokenClone s resp req =
     (let (resp, disabled) = checkACLDisabled s resp req in
      if disabled then (resp, NilResult, None, [])
      else
        let tokenId = TrimPrefix (Path req) ''/v1/acl/token/clone/'' in
        if tokenId = '''' then (resp, NilResult, Some (BadRequestError ''Missing token ID''), [])
        else
          (case decodeTokenBody s req of
             (err, decoded) \<Rightarrow>
               if err \<noteq> None \<and> err \<noteq> Some ''EOF'' then
                 (resp, NilResult,
                  Some (BadRequestError (''Token decoding failed: '' @ the err)), [])
               else
                 let args = \<lparr>tu_Datacenter = Datacenter s,
                             tu_ACLToken = decoded\<lparr>AccessorID := tokenId\<rparr>,
                             tu_Token = parseToken s req\<rparr> in
                 (case rpcTokenClone s args of
                    (Some err, out) \<Rightarrow>
                      (resp, NilResult, Some (RPCError err), [ACL_TokenClone args])
                  | (None, out) \<Rightarrow> (resp, TokenResult out, None, [ACL_TokenClone args]))))"

definition ACLTokenUpgrade :: "HTTPServer \<Rightarrow> ResponseWriter \<Rightarrow> Request \<Rightarrow> Outcome" where
  "ACLTokenUpgrade s resp req =
     (let (resp, disabled) = checkACLDisabled s resp req in
      if disabled then (resp, NilResult, None, [])
      else
        let token = parseToken s req;
            tokenId = TrimPrefix (Path req) ''/v1/acl/token/upgrade/'' in
        if tokenId = '''' then (resp, NilResult, Some (BadRequestError ''Missing token ID''), [])
        else
          (case decodeTokenBody s req of
             (Some err, decoded) \<Rightarrow>
               (resp, NilResult, Some (BadRequestError (''Token decoding failed: '' @ err)), [])
           | (None, decoded) \<Rightarrow>
               (case
                  (if AccessorID decoded = '''' then Inr (decoded\<lparr>AccessorID := tokenId\<rparr>)
                   else if tokenId \<noteq> '''' \<and> AccessorID decoded \<noteq> tokenId then
                     Inl (BadRequestError ''Token Accessor ID in URL and payload do not match'')
                   else Inr decoded)
                of
                  Inl e \<Rightarrow> (resp, NilResult, Some e, [])
                | Inr aclToken \<Rightarrow>
                    let args = \<lparr>tu_Datacenter = Datacenter s, tu_ACLToken = aclToken,
                                tu_Token = token\<rparr> in
                    (case rpcTokenUpgrade s args of
                       (Some err, out) \<Rightarrow>
                         (resp, NilResult, Some (RPCError err), [ACL_TokenUpgrade args])
                     | (None, out) \<Rightarrow>
                         (resp, TokenResult out, None, [ACL_TokenUpgrade args])))))"

section \<open>The identifier resolver\<close>

datatype resolve_error = BadRequest | NotFound | AmbiguousIdentifier "string list"

text \<open>
  Modelled from the spec: \<^verbatim>\<open>acl.GetTokenIDFromPartial\<close> and
  \<^verbatim>\<open>acl.GetPolicyIDFromPartial\<close> (package command/acl) are called by \<^verbatim>\<open>Run\<close>, but
  their code is not among the sources. The definition follows section 4.1 of the
  specification: an empty prefix is invalid input; a prefix equal to a canonical identifier
  is an immediate match; otherwise the identifiers that start with the prefix are collected
  (byte-wise, case-sensitive), and none is NotFound, one is the answer, and more than one is
  AmbiguousIdentifier naming them.
\<close>

definition resolvePrefix :: "string list \<Rightarrow> string \<Rightarrow> resolve_error + string" where
  "resolvePrefix S P =
     (if P = '''' then Inl BadRequest
      else if P \<in> set S then Inr P
      else
        (case filter (prefix P) S of
           [] \<Rightarrow> Inl NotFound
         | [x] \<Rightarrow> Inr x
         | x # y # rest \<Rightarrow> Inl (AmbiguousIdentifier (x # y # rest))))"

text \<open>
  Modelled from the spec: the resolver of token Accessor IDs, which the specification
  describes as the same logic over the collection of tokens.
\<close>

definition resolveTokenID :: "ACLToken list \<Rightarrow> string \<Rightarrow> resolve_error + string" where
  "resolveTokenID tokens P = resolvePrefix (map AccessorID tokens) P"

text \<open>
  Modelled from the spec: the resolver of Policy IDs, the same logic over the collection of
  policies.
\<close>

definition resolvePolicyID :: "ACLPolicy list \<Rightarrow> string \<Rightarrow> resolve_error + string" where
  "resolvePolicyID policies P = resolvePrefix (map pol_ID policies) P"

section \<open>Notions used in the statements\<close>

text \<open>
  The elements of a list in the order of their first occurrence, each once: the order in
  which a loop that skips what it has already added adds them.
\<close>

fun first_occurrences :: "'a list \<Rightarrow> 'a list" where
  "first_occurrences [] = []"
| "first_occurrences (x # xs) = x # first_occurrences (filter (\<lambda>y. y \<noteq> x) xs)"

section \<open>Example inputs\<close>

text \<open>A token with one link by name, and a client that knows two policies and this token.\<close>

definition exampleToken :: ACLToken where
  "exampleToken =
     \<lparr>AccessorID = ''abcd1234'', SecretID = ''s3cr3t'', Description = ''old description'',
      Policies = [\<lparr>ID = '''', Name = ''read-only''\<rparr>], Rules = '''', Local = False,
      CreateTime = ''2018-10-19T00:00:00Z''\<rparr>"

definition exampleClient :: Client where
  "exampleClient =
     \<lparr>GetTokenIDFromPartial =
        (\<lambda>p. if prefix p ''abcd1234'' then (''abcd1234'', None)
             else ('''', Some (''No such token ID with prefix: '' @ p))),
      GetPolicyIDFromPartial =
        (\<lambda>p. if p \<noteq> '''' \<and> prefix p ''p1-read'' then (''p1-read'', None)
             else if p \<noteq> '''' \<and> prefix p ''p2-write'' then (''p2-write'', None)
             else ('''', Some (''No such policy ID with prefix: '' @ p))),
      TokenRead =
        (\<lambda>i. if i = ''abcd1234'' then Inr exampleToken else Inl ''ACL not found''),
      TokenUpdate = (\<lambda>t. Inr t)\<rparr>"

text \<open>A flag parser for the examples: it ignores the arguments and binds the given fields.\<close>

definition exampleEnv :: "cmd \<Rightarrow> Env" where
  "exampleEnv c = \<lparr>flagsParse = (\<lambda>c0 args. Inr c), APIClient = Inr exampleClient\<rparr>"

text \<open>
  A server with ACLs enabled whose collaborators answer with fixed values; the examples
  change the fields they are about.
\<close>

definition zeroQueryMeta :: QueryMeta where
  "zeroQueryMeta = \<lparr>qm_Index = 0, qm_LastContact = 0, qm_KnownLeader = False\<rparr>"

definition examplePolicy :: ACLPolicy where
  "examplePolicy =
     \<lparr>pol_ID = '''', pol_Name = '''', pol_Description = ''web servers'',
      pol_Rules = ''operator = read'', pol_Syntax = SyntaxLegacy\<rparr>"

definition exampleServer :: HTTPServer where
  "exampleServer =
     \<lparr>ACLsEnabled = True,
      Datacenter = ''dc1'',
      ACLBootstrapNotAllowedErr = ''ACL bootstrap no longer allowed'',
      PermissionDeniedError = (\<lambda>cause. ''Permission denied: '' @ cause),
      TranslateLegacyRules = (\<lambda>rules. Inr rules),
      parse = (\<lambda>resp req dc opts. (resp, dc, opts, False)),
      parseSource = (\<lambda>req. ''''),
      parseToken = (\<lambda>req. QueryGet (Query req) ''token''),
      decodePolicyBody = (\<lambda>req. (None, examplePolicy)),
      decodeTokenBody = (\<lambda>req. (None, exampleToken)),
      tokenStub = AccessorID,
      rpcBootstrap = (\<lambda>args. (None, exampleToken)),
      rpcReplicationStatus = (\<lambda>args. (None, ''running'')),
      rpcTokenRead = (\<lambda>args. (None, \<lparr>rsp_Token = Some exampleToken, rsp_TokenMeta = zeroQueryMeta\<rparr>)),
      rpcPolicyList = (\<lambda>args. (None, \<lparr>rsp_Policies = [examplePolicy], rsp_PoliciesMeta = zeroQueryMeta\<rparr>)),
      rpcPolicyRead = (\<lambda>args. (None, \<lparr>rsp_Policy = Some examplePolicy, rsp_PolicyMeta = zeroQueryMeta\<rparr>)),
      rpcPolicyUpsert = (\<lambda>args. (None, pu_Policy args)),
      rpcPolicyDelete = (\<lambda>args. (None, '''')),
      rpcTokenList = (\<lambda>args. (None, \<lparr>rsp_Tokens = [exampleToken], rsp_TokensMeta = zeroQueryMeta\<rparr>)),
      rpcTokenUpsert = (\<lambda>args. (None, tu_ACLToken args)),
      rpcTokenDelete = (\<lambda>args. (None, '''')),
      rpcTokenClone = (\<lambda>args. (None, tu_ACLToken args)),
      rpcTokenUpgrade = (\<lambda>args. (None, tu_ACLToken args))\<rparr>"

definition emptyResponse :: ResponseWriter where
  "emptyResponse = \<lparr>statusCode = None, body = '''', meta = None\<rparr>"

definition exampleRequest :: "string \<Rightarrow> string \<Rightarrow> Request" where
  "exampleRequest m p = \<lparr>Method = m, Path = p, Query = [], Body = ''''\<rparr>"

section \<open>Properties of the token-update command\<close>

subsection \<open>The loops in closed form\<close>

lemma set_first_occurrences: "set (first_occurrences xs) = set xs"
  by (induction xs rule: first_occurrences.induct) auto

lemma distinct_first_occurrences: "distinct (first_occurrences xs)"
  by (induction xs rule: first_occurrences.induct) (auto simp: set_first_occurrences)

lemma first_occurrences_distinct: "distinct xs \<Longrightarrow> first_occurrences xs = xs"
proof (induction xs)
  case (Cons x xs)
  then have "filter (\<lambda>y. y \<noteq> x) xs = xs"
    by (auto intro: filter_True)
  with Cons show ?case by simp
qed simp

lemma remdups_snoc: "remdups (ys @ [x]) = filter (\<lambda>y. y \<noteq> x) (remdups ys) @ [x]"
  by (induction ys) auto

lemma first_occurrences_remdups: "first_occurrences xs = rev (remdups (rev xs))"
  by (induction xs rule: first_occurrences.induct)
    (simp_all add: remdups_snoc rev_filter remdups_filter)

lemma foundName_iff: "foundName links n \<longleftrightarrow> n \<in> Name ` set links"
  by (induction links) auto

lemma foundID_iff: "foundID links i \<longleftrightarrow> i \<in> ID ` set links"
  by (induction links) auto

lemma mergeNames_closed_form:
  "mergeNames ps names =
     ps @ map (\<lambda>n. \<lparr>ID = '''', Name = n\<rparr>)
            (first_occurrences (filter (\<lambda>n. n \<notin> Name ` set ps) names))"
proof (induction names arbitrary: ps)
  case Nil
  show ?case by simp
next
  case (Cons n names)
  show ?case
  proof (cases "n \<in> Name ` set ps")
    case True
    then show ?thesis by (simp add: foundName_iff Cons.IH)
  next
    case False
    have "filter (\<lambda>m. m \<notin> Name ` set (ps @ [\<lparr>ID = '''', Name = n\<rparr>])) names
          = filter (\<lambda>y. y \<noteq> n) (filter (\<lambda>m. m \<notin> Name ` set ps) names)"
      by (auto intro: filter_cong)
    with False show ?thesis by (simp add: foundName_iff Cons.IH)
  qed
qed

lemma mergeIDs_closed_form:
  "map (GetPolicyIDFromPartial client) ids = map (\<lambda>i. (i, None)) rids \<Longrightarrow>
   mergeIDs client ps ids =
     Inr (ps @ map (\<lambda>i. \<lparr>ID = i, Name = ''''\<rparr>)
                 (first_occurrences (filter (\<lambda>i. i \<notin> ID ` set ps) rids)))"
proof (induction ids arbitrary: ps rids)
  case Nil
  then show ?case by simp
next
  case (Cons p ids)
  then obtain r rs where rids: "rids = r # rs"
    and r: "GetPolicyIDFromPartial client p = (r, None)"
    and rs: "map (GetPolicyIDFromPartial client) ids = map (\<lambda>i. (i, None)) rs"
    by (cases rids) auto
  show ?case
  proof (cases "r \<in> ID ` set ps")
    case True
    then show ?thesis using r rids by (simp add: foundID_iff Cons.IH [OF rs])
  next
    case False
    have "filter (\<lambda>m. m \<notin> ID ` set (ps @ [\<lparr>ID = r, Name = ''''\<rparr>])) rs
          = filter (\<lambda>y. y \<noteq> r) (filter (\<lambda>m. m \<notin> ID ` set ps) rs)"
      by (auto intro: filter_cong)
    with False show ?thesis using r rids by (simp add: foundID_iff Cons.IH [OF rs])
  qed
qed

lemma mergeIDs_resolved:
  "mergeIDs client ps ids = Inr ps' \<Longrightarrow>
   \<exists>rids. map (GetPolicyIDFromPartial client) ids = map (\<lambda>i. (i, None)) rids"
proof (induction ids arbitrary: ps)
  case Nil
  show ?case by simp
next
  case (Cons p ids)
  obtain r e where re: "GetPolicyIDFromPartial client p = (r, e)" by (cases "GetPolicyIDFromPartial client p")
  with Cons.prems have e: "e = None" by (cases e) auto
  with re Cons.prems obtain qs where "mergeIDs client qs ids = Inr ps'" by auto
  from Cons.IH [OF this] obtain rids where
    "map (GetPolicyIDFromPartial client) ids = map (\<lambda>i. (i, None)) rids" ..
  with re e have "map (GetPolicyIDFromPartial client) (p # ids) = map (\<lambda>i. (i, None)) (r # rids)"
    by simp
  then show ?case ..
qed

lemma replaceNames_closed_form:
  "replaceNames ps names = ps @ map (\<lambda>n. \<lparr>ID = '''', Name = n\<rparr>) names"
  by (induction names arbitrary: ps) auto

lemma replaceIDs_closed_form:
  "map (GetPolicyIDFromPartial client) ids = map (\<lambda>i. (i, None)) rids \<Longrightarrow>
   replaceIDs client ps ids = Inr (ps @ map (\<lambda>i. \<lparr>ID = i, Name = ''''\<rparr>) rids)"
proof (induction ids arbitrary: ps rids)
  case Nil
  then show ?case by simp
next
  case (Cons p ids)
  then obtain r rs where rids: "rids = r # rs"
    and r: "GetPolicyIDFromPartial client p = (r, None)"
    and rs: "map (GetPolicyIDFromPartial client) ids = map (\<lambda>i. (i, None)) rs"
    by (cases rids) auto
  show ?case using r rids by (simp add: Cons.IH [OF rs])
qed

lemma reconcile_Description:
  "reconcile client c token = Inr token' \<Longrightarrow> Description token' = Description token"
  by (auto simp: reconcile_def split: if_splits sum.splits)

lemma mergeNames_prefix: "prefix ps (mergeNames ps names)"
  by (simp add: mergeNames_closed_form)

lemma mergeIDs_prefix: "mergeIDs client ps ids = Inr ps' \<Longrightarrow> prefix ps ps'"
  using mergeIDs_resolved [of client ps ids ps'] mergeIDs_closed_form [of client ids _ ps]
  by auto

lemma reconcile_merge_prefix:
  "mergePolicies c \<Longrightarrow> reconcile client c token = Inr token' \<Longrightarrow>
   prefix (Policies token) (Policies token')"
  by (auto simp: reconcile_def split: sum.splits
      dest!: mergeIDs_prefix intro: prefix_order.trans [OF mergeNames_prefix])

subsection \<open>From the reconciliation to the update\<close>

text \<open>
  \<^verbatim>\<open>Run\<close> sends the reconciled token, with the new description, to \<^verbatim>\<open>TokenUpdate\<close>;
  when a policy ID does not resolve it prints the error and sends nothing.
\<close>

lemma Run_sends_reconciled:
  assumes "flagsParse env c0 args = Inr c" and "tokenID c \<noteq> ''''"
    and "APIClient env = Inr client"
    and "GetTokenIDFromPartial client (tokenID c) = (tokenID', None)"
    and "TokenRead client tokenID' = Inr token"
    and "reconcile client c (token\<lparr>Description := description c\<rparr>) = Inr token'"
    and "TokenUpdate client token' = Inr updated"
  shows "Run env c0 args =
     (0, [ACL_TokenUpdate token', UI_Info ''Token updated successfully.'',
          PrintToken updated True])"
  using assms by (simp add: Run_def)

lemma Run_unresolved_policy_sends_nothing:
  assumes "flagsParse env c0 args = Inr c" and "tokenID c \<noteq> ''''"
    and "APIClient env = Inr client"
    and "GetTokenIDFromPartial client (tokenID c) = (tokenID', None)"
    and "TokenRead client tokenID' = Inr token"
    and "reconcile client c (token\<lparr>Description := description c\<rparr>) = Inl msg"
  shows "Run env c0 args = (1, [UI_Error msg])"
  using assms by (simp add: Run_def)

text \<open>The scenario of the specification: a token linked to \<^verbatim>\<open>read-only\<close>, a request for \<^verbatim>\<open>write\<close>.\<close>

lemma scenario_merge:
  "reconcile exampleClient (init\<lparr>tokenID := ''abcd1234'', policyNames := [''write''],
       mergePolicies := True\<rparr>) exampleToken =
   Inr (exampleToken\<lparr>Policies :=
     [\<lparr>ID = '''', Name = ''read-only''\<rparr>, \<lparr>ID = '''', Name = ''write''\<rparr>]\<rparr>)"
  by (simp add: reconcile_def init_def exampleToken_def)

lemma scenario_replace:
  "reconcile exampleClient (init\<lparr>tokenID := ''abcd1234'', policyNames := [''write'']\<rparr>)
       exampleToken =
   Inr (exampleToken\<lparr>Policies := [\<lparr>ID = '''', Name = ''write''\<rparr>]\<rparr>)"
  by (simp add: reconcile_def init_def exampleToken_def)

text \<open>
  A link by name has the empty string as its \<open>ID\<close>. A resolver that returned the empty
  string without an error would therefore find its result on any link by name; the
  statement about merging takes resolved identifiers to be non-empty.
\<close>

lemma merge_empty_ID_after_new_name:
  "mergeIDs (exampleClient\<lparr>GetPolicyIDFromPartial := (\<lambda>p. ('''', None))\<rparr>)
     (mergeNames [] [''write'']) [''x''] = Inr [\<lparr>ID = '''', Name = ''write''\<rparr>]"
  by (simp add: exampleClient_def)

subsection \<open>Merge\<close>

text \<open>
  Claim C1. With \<^verbatim>\<open>-merge-policies\<close>, when every requested policy ID resolves (to the
  canonical identifiers \<open>rids\<close>, none of them empty, as a resolved identifier is), the token's
  new links are: the existing links, in their order; then one link by name for each requested
  name that no existing link carries as its \<open>Name\<close>; then one link by ID for each resolved
  ID that no existing link carries as its \<open>ID\<close>. Each such name or ID gets one link, at the
  place of its first occurrence in the request. Existing links that the request does not
  mention stay, and the test for an ID looks at the \<open>ID\<close> fields only: an existing link
  by name never keeps a link by ID from being appended.
\<close>

theorem merge_appends_missing_links:
  assumes merge: "mergePolicies c"
    and resolved: "map (GetPolicyIDFromPartial client) (policyIDs c) = map (\<lambda>i. (i, None)) rids"
    and nonempty: "'''' \<notin> set rids"
  shows "reconcile client c token =
     Inr (token\<lparr>Policies :=
       Policies token
       @ map (\<lambda>n. \<lparr>ID = '''', Name = n\<rparr>)
           (first_occurrences (filter (\<lambda>n. n \<notin> Name ` set (Policies token)) (policyNames c)))
       @ map (\<lambda>i. \<lparr>ID = i, Name = ''''\<rparr>)
           (first_occurrences (filter (\<lambda>i. i \<notin> ID ` set (Policies token)) rids))\<rparr>)"
proof -
  let ?ps = "Policies token"
  let ?new = "first_occurrences (filter (\<lambda>n. n \<notin> Name ` set ?ps) (policyNames c))"
  let ?mid = "?ps @ map (\<lambda>n. \<lparr>ID = '''', Name = n\<rparr>) ?new"
  have "filter (\<lambda>i. i \<notin> ID ` set ?mid) rids = filter (\<lambda>i. i \<notin> ID ` set ?ps) rids"
    using nonempty by (intro filter_cong) (auto simp: image_iff)
  then have "mergeIDs client ?mid (policyIDs c) =
      Inr (?mid @ map (\<lambda>i. \<lparr>ID = i, Name = ''''\<rparr>)
             (first_occurrences (filter (\<lambda>i. i \<notin> ID ` set ?ps) rids)))"
    using mergeIDs_closed_form [OF resolved, of ?mid] by simp
  then show ?thesis
    using merge by (simp add: reconcile_def mergeNames_closed_form)
qed

theorem merge_appends_missing_links_witness:
  "reconcile exampleClient
     (init\<lparr>tokenID := ''abcd'', policyNames := [''read-only'', ''write'', ''write''],
            policyIDs := [''p1'', ''p2-w''], mergePolicies := True\<rparr>)
     exampleToken =
   Inr (exampleToken\<lparr>Policies :=
     [\<lparr>ID = '''', Name = ''read-only''\<rparr>, \<lparr>ID = '''', Name = ''write''\<rparr>,
      \<lparr>ID = ''p1-read'', Name = ''''\<rparr>, \<lparr>ID = ''p2-write'', Name = ''''\<rparr>]\<rparr>)"
  using merge_appends_missing_links
    [of "init\<lparr>tokenID := ''abcd'', policyNames := [''read-only'', ''write'', ''write''],
               policyIDs := [''p1'', ''p2-w''], mergePolicies := True\<rparr>"
        exampleClient "[''p1-read'', ''p2-write'']" exampleToken]
  by (simp add: init_def exampleClient_def exampleToken_def)

text \<open>
  Claim C3. Merging is idempotent: when a merge of a request into a token succeeds, merging
  the same request into the result succeeds and changes nothing.
\<close>

theorem merge_is_idempotent:
  assumes merge: "mergePolicies c"
    and once: "reconcile client c token = Inr token'"
  shows "reconcile client c token' = Inr token'"
proof -
  let ?mid = "mergeNames (Policies token) (policyNames c)"
  from once merge obtain ps' where ids: "mergeIDs client ?mid (policyIDs c) = Inr ps'"
    and token': "token' = token\<lparr>Policies := ps'\<rparr>"
    by (auto simp: reconcile_def split: sum.splits)
  from mergeIDs_resolved [OF ids] obtain rids where
    resolved: "map (GetPolicyIDFromPartial client) (policyIDs c) = map (\<lambda>i. (i, None)) rids" ..
  let ?newids = "first_occurrences (filter (\<lambda>i. i \<notin> ID ` set ?mid) rids)"
  have ps': "ps' = ?mid @ map (\<lambda>i. \<lparr>ID = i, Name = ''''\<rparr>) ?newids"
    using ids mergeIDs_closed_form [OF resolved, of ?mid] by simp
  have names: "set (policyNames c) \<subseteq> Name ` set ?mid"
    by (auto simp: mergeNames_closed_form set_first_occurrences image_Un image_image)
  then have names': "filter (\<lambda>n. n \<notin> Name ` set ps') (policyNames c) = []"
    by (auto simp: ps' filter_empty_conv)
  have "set rids \<subseteq> ID ` set ps'"
    by (auto simp: ps' set_first_occurrences image_Un image_image)
  then have ids': "filter (\<lambda>i. i \<notin> ID ` set ps') rids = []"
    by (auto simp: filter_empty_conv)
  have "mergeNames ps' (policyNames c) = ps'"
    by (simp add: mergeNames_closed_form names')
  moreover have "mergeIDs client ps' (policyIDs c) = Inr ps'"
    using mergeIDs_closed_form [OF resolved, of ps'] by (simp add: ids')
  ultimately show ?thesis
    using merge by (simp add: reconcile_def token')
qed

theorem merge_is_idempotent_witness:
  "reconcile exampleClient
     (init\<lparr>tokenID := ''abcd'', policyNames := [''write''], policyIDs := [''p1''],
            mergePolicies := True\<rparr>)
     (exampleToken\<lparr>Policies :=
        [\<lparr>ID = '''', Name = ''read-only''\<rparr>, \<lparr>ID = '''', Name = ''write''\<rparr>,
         \<lparr>ID = ''p1-read'', Name = ''''\<rparr>]\<rparr>) =
   Inr (exampleToken\<lparr>Policies :=
        [\<lparr>ID = '''', Name = ''read-only''\<rparr>, \<lparr>ID = '''', Name = ''write''\<rparr>,
         \<lparr>ID = ''p1-read'', Name = ''''\<rparr>]\<rparr>)"
proof -
  let ?c = "init\<lparr>tokenID := ''abcd'', policyNames := [''write''], policyIDs := [''p1''],
                 mergePolicies := True\<rparr>"
  let ?t = "exampleToken\<lparr>Policies :=
        [\<lparr>ID = '''', Name = ''read-only''\<rparr>, \<lparr>ID = '''', Name = ''write''\<rparr>,
         \<lparr>ID = ''p1-read'', Name = ''''\<rparr>]\<rparr>"
  have merge: "mergePolicies ?c"
    by (simp add: init_def)
  have once: "reconcile exampleClient ?c exampleToken = Inr ?t"
    by (simp add: reconcile_def init_def exampleClient_def exampleToken_def)
  show ?thesis
    by (rule merge_is_idempotent [OF merge once])
qed

subsection \<open>Replace\<close>

text \<open>
  Claim C2. Without \<^verbatim>\<open>-merge-policies\<close>, for every token and every request whose policy
  IDs resolve (to \<open>rids\<close>), the token's links become exactly the requested names as links by
  name, in the caller's order, followed by the resolved IDs as links by ID, in the caller's
  order. The token's previous links do not appear in the result.
\<close>

theorem replace_is_exact:
  assumes replace: "\<not> mergePolicies c"
    and resolved: "map (GetPolicyIDFromPartial client) (policyIDs c) = map (\<lambda>i. (i, None)) rids"
  shows "reconcile client c token =
     Inr (token\<lparr>Policies :=
       map (\<lambda>n. \<lparr>ID = '''', Name = n\<rparr>) (policyNames c)
       @ map (\<lambda>i. \<lparr>ID = i, Name = ''''\<rparr>) rids\<rparr>)"
  using replace replaceIDs_closed_form [OF resolved]
  by (simp add: reconcile_def replaceNames_closed_form)

theorem replace_is_exact_witness:
  "reconcile exampleClient
     (init\<lparr>tokenID := ''abcd'', policyNames := [''write'', ''write''], policyIDs := [''p2'']\<rparr>)
     exampleToken =
   Inr (exampleToken\<lparr>Policies :=
     [\<lparr>ID = '''', Name = ''write''\<rparr>, \<lparr>ID = '''', Name = ''write''\<rparr>,
      \<lparr>ID = ''p2-write'', Name = ''''\<rparr>]\<rparr>)"
  using replace_is_exact
    [of "init\<lparr>tokenID := ''abcd'', policyNames := [''write'', ''write''],
               policyIDs := [''p2'']\<rparr>"
        exampleClient "[''p2-write'']" exampleToken]
  by (simp add: init_def exampleClient_def exampleToken_def)

subsection \<open>The description\<close>

text \<open>
  Claim C10. A run that ends with exit code 0 has sent exactly one update, and the token it
  sent carries as its \<open>Description\<close> the value bound to \<^verbatim>\<open>-description\<close> after
  parsing, whatever the token read from the agent had; this holds with
  \<^verbatim>\<open>-merge-policies\<close> too, where the links of the token read are kept (they are a
  prefix of the links sent) and its description is not. \<^verbatim>\<open>init\<close> gives the flag the
  empty string as its default.
\<close>

theorem description_always_overwritten:
  assumes parsed: "flagsParse env c0 args = Inr c"
    and ok: "Run env c0 args = (0, evs)"
  shows "\<exists>client tokenID' token token' updated.
      APIClient env = Inr client \<and>
      GetTokenIDFromPartial client (tokenID c) = (tokenID', None) \<and>
      TokenRead client tokenID' = Inr token \<and>
      evs = [ACL_TokenUpdate token', UI_Info ''Token updated successfully.'',
             PrintToken updated True] \<and>
      Description token' = description c \<and>
      (mergePolicies c \<longrightarrow> prefix (Policies token) (Policies token')) \<and>
      description init = ''''"
proof -
  from ok parsed obtain client tokenID' token token' updated where
    run: "APIClient env = Inr client"
      "GetTokenIDFromPartial client (tokenID c) = (tokenID', None)"
      "TokenRead client tokenID' = Inr token"
      "reconcile client c (token\<lparr>Description := description c\<rparr>) = Inr token'"
      "evs = [ACL_TokenUpdate token', UI_Info ''Token updated successfully.'',
              PrintToken updated True]"
    by (auto simp: Run_def split: if_splits sum.splits prod.splits option.splits)
  have "Description token' = description c"
    using reconcile_Description [OF run(4)] by simp
  moreover have "mergePolicies c \<longrightarrow> prefix (Policies token) (Policies token')"
    using reconcile_merge_prefix [OF _ run(4)] by simp
  moreover have "description init = ''''"
    by (simp add: init_def)
  ultimately show ?thesis
    using run(1,2,3,5) by blast
qed

theorem description_always_overwritten_witness:
  "Run (exampleEnv (init\<lparr>tokenID := ''abcd'', mergePolicies := True\<rparr>)) init
       [''-id'', ''abcd'', ''-merge-policies''] =
     (0, [ACL_TokenUpdate (exampleToken\<lparr>Description := ''''\<rparr>),
          UI_Info ''Token updated successfully.'',
          PrintToken (exampleToken\<lparr>Description := ''''\<rparr>) True])
   \<and> Description exampleToken = ''old description''
   \<and> (\<exists>client tokenID' token token' updated.
        APIClient (exampleEnv (init\<lparr>tokenID := ''abcd'', mergePolicies := True\<rparr>)) = Inr client \<and>
        GetTokenIDFromPartial client (tokenID (init\<lparr>tokenID := ''abcd'', mergePolicies := True\<rparr>))
          = (tokenID', None) \<and>
        TokenRead client tokenID' = Inr token \<and>
        [ACL_TokenUpdate (exampleToken\<lparr>Description := ''''\<rparr>),
         UI_Info ''Token updated successfully.'',
         PrintToken (exampleToken\<lparr>Description := ''''\<rparr>) True]
          = [ACL_TokenUpdate token', UI_Info ''Token updated successfully.'',
             PrintToken updated True] \<and>
        Description token' = description (init\<lparr>tokenID := ''abcd'', mergePolicies := True\<rparr>) \<and>
        (mergePolicies (init\<lparr>tokenID := ''abcd'', mergePolicies := True\<rparr>) \<longrightarrow>
           prefix (Policies token) (Policies token')) \<and>
        description init = '''')"
proof -
  let ?c = "init\<lparr>tokenID := ''abcd'', mergePolicies := True\<rparr>"
  let ?args = "[''-id'', ''abcd'', ''-merge-policies'']"
  let ?evs = "[ACL_TokenUpdate (exampleToken\<lparr>Description := ''''\<rparr>),
               UI_Info ''Token updated successfully.'',
               PrintToken (exampleToken\<lparr>Description := ''''\<rparr>) True]"
  have parsed: "flagsParse (exampleEnv ?c) init ?args = Inr ?c"
    by (simp add: exampleEnv_def)
  have run: "Run (exampleEnv ?c) init ?args = (0, ?evs)"
    by (simp add: Run_def reconcile_def exampleEnv_def init_def exampleClient_def
        exampleToken_def)
  have old: "Description exampleToken = ''old description''"
    by (simp add: exampleToken_def)
  from description_always_overwritten [OF parsed run] run old show ?thesis
    by blast
qed

section \<open>Properties of the agent's ACL endpoints\<close>

subsection \<open>The standard library and the response writer\<close>

lemma Contains_iff_sublist: "Contains s substr \<longleftrightarrow> sublist substr s"
  by (induction s) (auto simp: sublist_Cons_right)

lemma statusCode_Write_WriteHeader:
  "statusCode resp = None \<Longrightarrow> statusCode (Write (WriteHeader resp code) text) = Some code"
  by (simp add: Write_def WriteHeader_def)

lemma body_Write_WriteHeader:
  "body (Write (WriteHeader resp code) text) = body resp @ text"
  by (simp add: Write_def WriteHeader_def split: option.splits)

lemma checkACLDisabled_disabled:
  "\<not> ACLsEnabled s \<Longrightarrow>
   checkACLDisabled s resp req =
     (Write (WriteHeader resp StatusUnauthorized) ''ACL support disabled'', True)"
  by (simp add: checkACLDisabled_def)

lemma checkACLDisabled_enabled:
  "ACLsEnabled s \<Longrightarrow> checkACLDisabled s resp req = (resp, False)"
  by (simp add: checkACLDisabled_def)

subsection \<open>Bootstrap\<close>

text \<open>
  Claim C5. With ACLs enabled, when the \<^verbatim>\<open>ACL.Bootstrap\<close> RPC fails with an error of text
  \<open>e\<close>, one test decides the outcome. If \<open>e\<close> contains the text of
  \<^verbatim>\<open>structs.ACLBootstrapNotAllowedErr\<close>, the endpoint writes status 403 and the text of
  \<^verbatim>\<open>acl.PermissionDeniedError\<close> with cause \<open>e\<close>, and returns no result and no error.
  Otherwise it leaves the response as it is and returns the RPC's error unchanged. In both
  cases the RPC is the only call made. On a response with no status yet the status written
  is 403.
\<close>

theorem bootstrap_failure_classified:
  fixes s :: HTTPServer
  defines "args \<equiv> \<lparr>dc_Datacenter = Datacenter s, dc_Source = '''',
                     dc_QueryOptions = zeroQueryOptions\<rparr>"
  assumes enabled: "ACLsEnabled s"
    and failed: "rpcBootstrap s args = (Some e, out)"
  shows "(Contains e (ACLBootstrapNotAllowedErr s) \<longrightarrow>
            ACLBootstrap s resp req =
              (Write (WriteHeader resp StatusForbidden) (PermissionDeniedError s e), NilResult,
               None, [ACL_Bootstrap args]))
       \<and> (\<not> Contains e (ACLBootstrapNotAllowedErr s) \<longrightarrow>
            ACLBootstrap s resp req = (resp, NilResult, Some (RPCError e), [ACL_Bootstrap args]))
       \<and> (statusCode resp = None \<longrightarrow>
            statusCode (Write (WriteHeader resp StatusForbidden) (PermissionDeniedError s e))
              = Some 403)"
  using enabled failed
  by (simp add: args_def ACLBootstrap_def checkACLDisabled_enabled statusCode_Write_WriteHeader
      StatusForbidden_def)

theorem bootstrap_failure_classified_witness:
  "ACLBootstrap
     (exampleServer\<lparr>rpcBootstrap :=
        (\<lambda>args. (Some ''rpc error: ACL bootstrap no longer allowed (reset index: 13)'',
                  exampleToken))\<rparr>)
     emptyResponse (exampleRequest ''PUT'' ''/v1/acl/bootstrap'') =
     (\<lparr>statusCode = Some 403,
       body = ''Permission denied: rpc error: ACL bootstrap no longer allowed (reset index: 13)'',
       meta = None\<rparr>,
      NilResult, None,
      [ACL_Bootstrap \<lparr>dc_Datacenter = ''dc1'', dc_Source = '''',
         dc_QueryOptions = zeroQueryOptions\<rparr>])
   \<and> ACLBootstrap
     (exampleServer\<lparr>rpcBootstrap := (\<lambda>args. (Some ''No cluster leader'', exampleToken))\<rparr>)
     emptyResponse (exampleRequest ''PUT'' ''/v1/acl/bootstrap'') =
     (emptyResponse, NilResult, Some (RPCError ''No cluster leader''),
      [ACL_Bootstrap \<lparr>dc_Datacenter = ''dc1'', dc_Source = '''',
         dc_QueryOptions = zeroQueryOptions\<rparr>])"
  using bootstrap_failure_classified
    [of "exampleServer\<lparr>rpcBootstrap :=
           (\<lambda>args. (Some ''rpc error: ACL bootstrap no longer allowed (reset index: 13)'',
                     exampleToken))\<rparr>"
        "''rpc error: ACL bootstrap no longer allowed (reset index: 13)''" exampleToken
        emptyResponse "exampleRequest ''PUT'' ''/v1/acl/bootstrap''"]
    bootstrap_failure_classified
    [of "exampleServer\<lparr>rpcBootstrap := (\<lambda>args. (Some ''No cluster leader'', exampleToken))\<rparr>"
        "''No cluster leader''" exampleToken
        emptyResponse "exampleRequest ''PUT'' ''/v1/acl/bootstrap''"]
  by (simp add: exampleServer_def emptyResponse_def Write_def WriteHeader_def
      StatusForbidden_def StatusOK_def)

subsection \<open>ACLs disabled\<close>

text \<open>
  Claim C6, as stated: with ACLs disabled the guarded endpoints answer with a Forbidden-class
  response and the caller gets a Forbidden error. The code does neither. On the example
  server with ACLs disabled, \<^verbatim>\<open>checkACLDisabled\<close> reports that the caller must stop and
  writes \<^verbatim>\<open>http.StatusUnauthorized\<close>, which is 401 and not 403, and a guarded endpoint
  returns no error at all.
\<close>

theorem disabled_acls_are_not_forbidden:
  "\<not> ACLsEnabled (exampleServer\<lparr>ACLsEnabled := False\<rparr>)
   \<and> snd (checkACLDisabled (exampleServer\<lparr>ACLsEnabled := False\<rparr>) emptyResponse
            (exampleRequest ''GET'' ''/v1/acl/tokens''))
   \<and> statusCode (fst (checkACLDisabled (exampleServer\<lparr>ACLsEnabled := False\<rparr>) emptyResponse
            (exampleRequest ''GET'' ''/v1/acl/tokens''))) = Some 401
   \<and> statusCode (fst (checkACLDisabled (exampleServer\<lparr>ACLsEnabled := False\<rparr>) emptyResponse
            (exampleRequest ''GET'' ''/v1/acl/tokens''))) \<noteq> Some StatusForbidden
   \<and> ACLTokenList (exampleServer\<lparr>ACLsEnabled := False\<rparr>) emptyResponse
            (exampleRequest ''GET'' ''/v1/acl/tokens'') =
       (\<lparr>statusCode = Some 401, body = ''ACL support disabled'', meta = None\<rparr>,
        NilResult, None, [])"
  by (simp add: ACLTokenList_def checkACLDisabled_def exampleServer_def emptyResponse_def
      Write_def WriteHeader_def StatusUnauthorized_def StatusForbidden_def StatusOK_def)

text \<open>
  Claim C6, amended. With ACLs disabled, every endpoint that starts with
  \<^verbatim>\<open>checkACLDisabled\<close> (\<^verbatim>\<open>ACLBootstrap\<close>, \<^verbatim>\<open>ACLReplicationStatus\<close>, \<^verbatim>\<open>ACLPolicyList\<close>,
  \<^verbatim>\<open>ACLPolicyCRUD\<close>, \<^verbatim>\<open>ACLTokenList\<close>, \<^verbatim>\<open>ACLTokenCRUD\<close>, \<^verbatim>\<open>ACLTokenCreate\<close>,
  \<^verbatim>\<open>ACLTokenClone\<close>, \<^verbatim>\<open>ACLTokenUpgrade\<close>) writes \<^verbatim>\<open>http.StatusUnauthorized\<close> and the
  body "ACL support disabled", returns no result and no error, and makes no call to the
  servers. On a response with no status yet the status written is 401.
\<close>

theorem disabled_acls_answer_unauthorized:
  fixes s :: HTTPServer and resp :: ResponseWriter
  defines "refusal \<equiv>
    (Write (WriteHeader resp StatusUnauthorized) ''ACL support disabled'', NilResult, None, [])"
  assumes disabled: "\<not> ACLsEnabled s"
  shows "ACLBootstrap s resp req = refusal
       \<and> ACLReplicationStatus s resp req = refusal
       \<and> ACLPolicyList s resp req = refusal
       \<and> ACLPolicyCRUD s resp req = refusal
       \<and> ACLTokenList s resp req = refusal
       \<and> ACLTokenCRUD s resp req = refusal
       \<and> ACLTokenCreate s resp req = refusal
       \<and> ACLTokenClone s resp req = refusal
       \<and> ACLTokenUpgrade s resp req = refusal
       \<and> (statusCode resp = None \<longrightarrow> statusCode (fst refusal) = Some 401)"
  using disabled
  by (simp add: refusal_def ACLBootstrap_def ACLReplicationStatus_def ACLPolicyList_def
      ACLPolicyCRUD_def ACLTokenList_def ACLTokenCRUD_def ACLTokenCreate_def ACLTokenClone_def
      ACLTokenUpgrade_def checkACLDisabled_disabled statusCode_Write_WriteHeader
      StatusUnauthorized_def)

theorem disabled_acls_answer_unauthorized_witness:
  "ACLBootstrap (exampleServer\<lparr>ACLsEnabled := False\<rparr>) emptyResponse
     (exampleRequest ''PUT'' ''/v1/acl/bootstrap'') =
     (\<lparr>statusCode = Some 401, body = ''ACL support disabled'', meta = None\<rparr>,
      NilResult, None, [])
   \<and> ACLTokenCRUD (exampleServer\<lparr>ACLsEnabled := False\<rparr>) emptyResponse
     (exampleRequest ''PUT'' ''/v1/acl/bootstrap'') =
     (\<lparr>statusCode = Some 401, body = ''ACL support disabled'', meta = None\<rparr>,
      NilResult, None, [])"
  using disabled_acls_answer_unauthorized
    [of "exampleServer\<lparr>ACLsEnabled := False\<rparr>" emptyResponse
        "exampleRequest ''PUT'' ''/v1/acl/bootstrap''"]
  by (simp add: exampleServer_def emptyResponse_def Write_def WriteHeader_def
      StatusUnauthorized_def StatusOK_def)

text \<open>For contrast: with ACLs enabled the same request reaches the servers.\<close>

lemma enabled_acls_reach_the_servers:
  "ACLTokenList exampleServer emptyResponse (exampleRequest ''GET'' ''/v1/acl/tokens'') =
     (setMeta emptyResponse zeroQueryMeta, TokenStubsResult [''abcd1234''], None,
      [ACL_TokenList \<lparr>tl_IncludeLocal = True, tl_IncludeGlobal = True, tl_Policy = '''',
         tl_Datacenter = ''dc1'', tl_QueryOptions = zeroQueryOptions\<rparr>])"
  by (simp add: ACLTokenList_def checkACLDisabled_def exampleServer_def exampleRequest_def
      exampleToken_def QueryGet_def Let_def)

subsection \<open>Translating the rules of a token\<close>

text \<open>
  Claim C8. \<^verbatim>\<open>ACLRulesTranslateLegacyToken\<close> fails when there is nothing to translate.
  If the path gives no token ID, it fails with the bad request "Missing token ID" and makes no
  call. If the path gives one, \<^verbatim>\<open>parse\<close> has not already answered and the
  \<^verbatim>\<open>ACL.TokenRead\<close> RPC succeeds, then: when the reply holds no token it fails with
  \<^verbatim>\<open>acl.ErrNotFound\<close>; when the reply holds a token whose \<open>Rules\<close> are empty it fails
  with the error "The specified token does not have any rules set"; and in both cases the
  RPC is the only call made, so the translator is not called.
\<close>

theorem translate_needs_a_token_with_rules:
  fixes s :: HTTPServer and req :: Request
  defines "tokenId \<equiv> TrimPrefix (Path req) ''/v1/acl/rules/translate/''"
  defines "args dc opts \<equiv>
    \<lparr>tr_Datacenter = (if dc = '''' then Datacenter s else dc), tr_TokenID = tokenId,
     tr_TokenIDType = ACLTokenAccessor, tr_QueryOptions = opts\<lparr>qo_MinQueryIndex := 0\<rparr>\<rparr>"
  shows "(tokenId = '''' \<longrightarrow>
            ACLRulesTranslateLegacyToken s resp req =
              (resp, NilResult, Some (BadRequestError ''Missing token ID''), []))
       \<and> (tokenId \<noteq> '''' \<and>
          parse s resp req (Datacenter s) zeroQueryOptions = (resp', dc, opts, False) \<and>
          rpcTokenRead s (args dc opts) = (None, out) \<and>
          rsp_Token out = None \<longrightarrow>
            ACLRulesTranslateLegacyToken s resp req =
              (setMeta resp' (rsp_TokenMeta out), NilResult, Some ErrNotFound,
               [ACL_TokenRead (args dc opts)]))
       \<and> (tokenId \<noteq> '''' \<and>
          parse s resp req (Datacenter s) zeroQueryOptions = (resp', dc, opts, False) \<and>
          rpcTokenRead s (args dc opts) = (None, out) \<and>
          rsp_Token out = Some token \<and> Rules token = '''' \<longrightarrow>
            ACLRulesTranslateLegacyToken s resp req =
              (setMeta resp' (rsp_TokenMeta out), NilResult,
               Some (Errorf ''The specified token does not have any rules set''),
               [ACL_TokenRead (args dc opts)]))"
  by (simp add: tokenId_def args_def ACLRulesTranslateLegacyToken_def Let_def)

theorem translate_needs_a_token_with_rules_witness:
  "ACLRulesTranslateLegacyToken exampleServer emptyResponse
     (exampleRequest ''GET'' ''/v1/acl/rules/translate/'') =
     (emptyResponse, NilResult, Some (BadRequestError ''Missing token ID''), [])
   \<and> ACLRulesTranslateLegacyToken
       (exampleServer\<lparr>rpcTokenRead :=
          (\<lambda>args. (None, \<lparr>rsp_Token = None, rsp_TokenMeta = zeroQueryMeta\<rparr>))\<rparr>)
       emptyResponse (exampleRequest ''GET'' ''/v1/acl/rules/translate/abcd1234'') =
     (setMeta emptyResponse zeroQueryMeta, NilResult, Some ErrNotFound,
      [ACL_TokenRead
         \<lparr>tr_Datacenter = ''dc1'', tr_TokenID = ''abcd1234'',
          tr_TokenIDType = ACLTokenAccessor, tr_QueryOptions = zeroQueryOptions\<rparr>])
   \<and> ACLRulesTranslateLegacyToken exampleServer emptyResponse
       (exampleRequest ''GET'' ''/v1/acl/rules/translate/abcd1234'') =
     (setMeta emptyResponse zeroQueryMeta, NilResult,
      Some (Errorf ''The specified token does not have any rules set''),
      [ACL_TokenRead
         \<lparr>tr_Datacenter = ''dc1'', tr_TokenID = ''abcd1234'',
          tr_TokenIDType = ACLTokenAccessor, tr_QueryOptions = zeroQueryOptions\<rparr>])"
  using translate_needs_a_token_with_rules
    [of "exampleRequest ''GET'' ''/v1/acl/rules/translate/''" exampleServer emptyResponse]
    translate_needs_a_token_with_rules
    [of "exampleRequest ''GET'' ''/v1/acl/rules/translate/abcd1234''"
        "exampleServer\<lparr>rpcTokenRead :=
           (\<lambda>args. (None, \<lparr>rsp_Token = None, rsp_TokenMeta = zeroQueryMeta\<rparr>))\<rparr>"
        emptyResponse emptyResponse "''dc1''" zeroQueryOptions
        "\<lparr>rsp_Token = None, rsp_TokenMeta = zeroQueryMeta\<rparr>"]
    translate_needs_a_token_with_rules
    [of "exampleRequest ''GET'' ''/v1/acl/rules/translate/abcd1234''"
        exampleServer emptyResponse emptyResponse "''dc1''" zeroQueryOptions
        "\<lparr>rsp_Token = Some exampleToken, rsp_TokenMeta = zeroQueryMeta\<rparr>" exampleToken]
  by (simp add: exampleServer_def exampleRequest_def exampleToken_def TrimPrefix_def
      zeroQueryOptions_def)

text \<open>
  For contrast: a token that has rules reaches the translator, and the call is in the trace.
\<close>

lemma translate_calls_translator_on_rules:
  "snd (snd (snd (ACLRulesTranslateLegacyToken
     (exampleServer\<lparr>rpcTokenRead :=
        (\<lambda>args. (None, \<lparr>rsp_Token = Some (exampleToken\<lparr>Rules := ''key  { policy = read }''\<rparr>),
                          rsp_TokenMeta = zeroQueryMeta\<rparr>))\<rparr>)
     emptyResponse (exampleRequest ''GET'' ''/v1/acl/rules/translate/abcd1234'')))) =
   [ACL_TokenRead
      \<lparr>tr_Datacenter = ''dc1'', tr_TokenID = ''abcd1234'',
       tr_TokenIDType = ACLTokenAccessor, tr_QueryOptions = zeroQueryOptions\<rparr>,
    TranslateLegacyRulesCall ''key  { policy = read }'']"
  by (simp add: ACLRulesTranslateLegacyToken_def exampleServer_def exampleRequest_def
      exampleToken_def TrimPrefix_def zeroQueryOptions_def Let_def)

subsection \<open>The identifier of the URL and the identifier of the payload\<close>

text \<open>
  \<^verbatim>\<open>ACLTokenWrite\<close> and \<^verbatim>\<open>ACLPolicyWrite\<close> addressed by ID adopt the identifier of
  the URL when the payload has none, and refuse two identifiers that differ before any call
  is made; \<^verbatim>\<open>ACLPolicyWrite\<close> addressed by name refuses two names that differ.
\<close>

lemma ACLTokenWrite_adopts_url_identifier:
  assumes "decodeTokenBody s req = (None, decoded)" and "AccessorID decoded = ''''"
  shows "snd (snd (snd (ACLTokenWrite s resp req tokenId))) =
     [ACL_TokenUpsert \<lparr>tu_Datacenter = Datacenter s,
        tu_ACLToken = decoded\<lparr>AccessorID := tokenId\<rparr>, tu_Token = parseToken s req\<rparr>]"
  using assms by (simp add: ACLTokenWrite_def Let_def split: prod.splits option.splits)

lemma ACLTokenWrite_refuses_mismatch:
  assumes "decodeTokenBody s req = (None, decoded)"
    and "tokenId \<noteq> ''''" and "AccessorID decoded \<noteq> ''''" and "AccessorID decoded \<noteq> tokenId"
  shows "ACLTokenWrite s resp req tokenId =
     (resp, NilResult,
      Some (BadRequestError ''Token Accessor ID in URL and payload do not match''), [])"
  using assms by (simp add: ACLTokenWrite_def)

lemma ACLPolicyWrite_by_ID_adopts_url_identifier:
  assumes "decodePolicyBody s req = (None, decoded)" and "pol_ID decoded = ''''"
  shows "snd (snd (snd (ACLPolicyWrite s resp req policyID ACLPolicyID))) =
     [ACL_PolicyUpsert \<lparr>pu_Datacenter = Datacenter s,
        pu_Policy = decoded\<lparr>pol_Syntax := SyntaxCurrent, pol_ID := policyID\<rparr>,
        pu_Token = parseToken s req\<rparr>]"
  using assms by (simp add: ACLPolicyWrite_def Let_def split: prod.splits option.splits)

lemma ACLPolicyWrite_by_ID_refuses_mismatch:
  assumes "decodePolicyBody s req = (None, decoded)"
    and "policyID \<noteq> ''''" and "pol_ID decoded \<noteq> ''''" and "pol_ID decoded \<noteq> policyID"
  shows "ACLPolicyWrite s resp req policyID ACLPolicyID =
     (resp, NilResult, Some (BadRequestError ''Policy ID in URL and payload do not match''), [])"
  using assms by (simp add: ACLPolicyWrite_def)

lemma ACLPolicyWrite_by_Name_refuses_mismatch:
  assumes "decodePolicyBody s req = (None, decoded)"
    and "policyID \<noteq> ''''" and "pol_Name decoded \<noteq> ''''" and "pol_Name decoded \<noteq> policyID"
  shows "ACLPolicyWrite s resp req policyID ACLPolicyName =
     (resp, NilResult, Some (BadRequestError ''Policy Name in URL and payload do not match''), [])"
  using assms by (simp add: ACLPolicyWrite_def)

lemma ACLPolicyWrite_by_Name_keeps_empty_name:
  assumes "decodePolicyBody s req = (None, decoded)" and "pol_Name decoded = ''''"
  shows "snd (snd (snd (ACLPolicyWrite s resp req policyID ACLPolicyName))) =
     [ACL_PolicyUpsert \<lparr>pu_Datacenter = Datacenter s,
        pu_Policy = decoded\<lparr>pol_Syntax := SyntaxCurrent\<rparr>, pu_Token = parseToken s req\<rparr>]"
  using assms by (simp add: ACLPolicyWrite_def Let_def split: prod.splits option.splits)

text \<open>
  Claim C4 at the input where the code departs from it: an update of the policy named
  \<^verbatim>\<open>web-servers\<close>, addressed by name, with a payload that carries no name. The claim has
  the name of the URL adopted into the payload. The code sends the payload to
  \<^verbatim>\<open>ACL.PolicyUpsert\<close> with its name still empty: the name case of the
  \<^verbatim>\<open>switch\<close> assigns the empty string where the ID case assigns the identifier of the URL.
\<close>

theorem policy_name_of_url_is_not_adopted:
  "ACLPolicyCRUD exampleServer emptyResponse
     \<lparr>Method = ''PUT'', Path = ''/v1/acl/policy/web-servers'',
      Query = [(''idType'', ''name'')], Body = ''''\<rparr> =
     (emptyResponse, PolicyResult (examplePolicy\<lparr>pol_Syntax := SyntaxCurrent\<rparr>), None,
      [ACL_PolicyUpsert \<lparr>pu_Datacenter = ''dc1'',
         pu_Policy = examplePolicy\<lparr>pol_Syntax := SyntaxCurrent\<rparr>, pu_Token = ''''\<rparr>])
   \<and> pol_Name examplePolicy = ''''
   \<and> pol_Name (examplePolicy\<lparr>pol_Syntax := SyntaxCurrent\<rparr>) \<noteq> ''web-servers''
   \<and> snd (snd (snd (ACLPolicyCRUD exampleServer emptyResponse
        \<lparr>Method = ''PUT'', Path = ''/v1/acl/policy/web-servers'',
         Query = [(''idType'', ''id'')], Body = ''''\<rparr>))) =
      [ACL_PolicyUpsert \<lparr>pu_Datacenter = ''dc1'',
         pu_Policy = examplePolicy\<lparr>pol_Syntax := SyntaxCurrent, pol_ID := ''web-servers''\<rparr>,
         pu_Token = ''''\<rparr>]"
  by (simp add: ACLPolicyCRUD_def ACLPolicyWrite_def checkACLDisabled_def exampleServer_def
      examplePolicy_def TrimPrefix_def QueryGet_def Let_def)

section \<open>Properties of the identifier resolver\<close>

lemma resolvePrefix_exact: "P \<noteq> '''' \<Longrightarrow> P \<in> set S \<Longrightarrow> resolvePrefix S P = Inr P"
  by (simp add: resolvePrefix_def)

lemma resolvePrefix_none:
  assumes "P \<noteq> ''''" and "filter (prefix P) S = []"
  shows "resolvePrefix S P = Inl NotFound"
proof -
  have "P \<notin> set S"
    using assms(2) by (auto simp: filter_empty_conv)
  then show ?thesis
    using assms by (simp add: resolvePrefix_def)
qed

lemma resolvePrefix_one:
  assumes "P \<noteq> ''''" and "filter (prefix P) S = [x]"
  shows "resolvePrefix S P = Inr x"
proof (cases "P \<in> set S")
  case True
  then have "P \<in> set (filter (prefix P) S)"
    by simp
  then have "P = x"
    using assms(2) by simp
  then show ?thesis
    using True assms(1) by (simp add: resolvePrefix_def)
next
  case False
  then show ?thesis
    using assms by (simp add: resolvePrefix_def)
qed

lemma resolvePrefix_many:
  assumes "P \<noteq> ''''" and "P \<notin> set S" and "2 \<le> length (filter (prefix P) S)"
  shows "resolvePrefix S P = Inl (AmbiguousIdentifier (filter (prefix P) S))"
proof -
  obtain a b rest where "filter (prefix P) S = a # b # rest"
    using assms(3) by (cases "filter (prefix P) S" rule: remdups_adj.cases) auto
  then show ?thesis
    using assms(1,2) by (simp add: resolvePrefix_def)
qed

lemma distinct_singleton: "distinct xs \<Longrightarrow> set xs = {x} \<Longrightarrow> xs = [x]"
  by (cases xs rule: remdups_adj.cases) auto

lemma unique_match_filter:
  assumes "distinct S" and "x \<in> set S" and "prefix P x"
    and "\<forall>y\<in>set S. prefix P y \<longrightarrow> y = x"
  shows "filter (prefix P) S = [x]"
proof (rule distinct_singleton)
  show "distinct (filter (prefix P) S)"
    using assms(1) by simp
  show "set (filter (prefix P) S) = {x}"
    unfolding set_filter using assms(2,3,4) by blast
qed

lemma two_matches_filter:
  assumes "x \<in> set S" and "y \<in> set S" and "x \<noteq> y" and "prefix P x" and "prefix P y"
  shows "2 \<le> length (filter (prefix P) S)"
proof -
  have "{x, y} \<subseteq> set (filter (prefix P) S)"
    using assms by simp
  then have "card {x, y} \<le> card (set (filter (prefix P) S))"
    by (intro card_mono) simp_all
  also have "\<dots> \<le> length (filter (prefix P) S)"
    by (rule card_length)
  finally show ?thesis
    using assms(3) by simp
qed

text \<open>
  Claim C7. For every non-empty prefix \<open>P\<close> and every collection \<open>S\<close> of identifiers:
  when \<open>P\<close> itself is in \<open>S\<close> the resolver returns \<open>P\<close>, also when \<open>P\<close> is a proper
  prefix of other elements; when no element of \<open>S\<close> starts with \<open>P\<close> it fails with
  NotFound; when \<open>S\<close> lists each identifier once (identifiers are unique keys) and exactly
  one element \<open>x\<close> starts with \<open>P\<close> it returns \<open>x\<close>; when two different elements start
  with \<open>P\<close> and \<open>P\<close> is not in \<open>S\<close> it fails with AmbiguousIdentifier, naming the elements
  that start with \<open>P\<close>. The resolvers of token Accessor IDs and of Policy IDs are this one
  function, applied to the identifiers of the tokens and of the policies.
\<close>

theorem prefix_resolution:
  assumes nonempty: "P \<noteq> ''''"
  shows "(P \<in> set S \<longrightarrow> resolvePrefix S P = Inr P)
       \<and> ((\<forall>x\<in>set S. \<not> prefix P x) \<longrightarrow> resolvePrefix S P = Inl NotFound)
       \<and> (distinct S \<and> x \<in> set S \<and> prefix P x \<and> (\<forall>y\<in>set S. prefix P y \<longrightarrow> y = x) \<longrightarrow>
            resolvePrefix S P = Inr x)
       \<and> (P \<notin> set S \<and> (\<exists>x\<in>set S. \<exists>y\<in>set S. x \<noteq> y \<and> prefix P x \<and> prefix P y) \<longrightarrow>
            resolvePrefix S P = Inl (AmbiguousIdentifier (filter (prefix P) S)))
       \<and> resolveTokenID tokens P = resolvePrefix (map AccessorID tokens) P
       \<and> resolvePolicyID policies P = resolvePrefix (map pol_ID policies) P"
proof -
  have exact: "P \<in> set S \<longrightarrow> resolvePrefix S P = Inr P"
    using nonempty by (simp add: resolvePrefix_exact)
  have none: "(\<forall>x\<in>set S. \<not> prefix P x) \<longrightarrow> resolvePrefix S P = Inl NotFound"
    using nonempty by (simp add: resolvePrefix_none filter_empty_conv)
  have one: "distinct S \<and> x \<in> set S \<and> prefix P x \<and> (\<forall>y\<in>set S. prefix P y \<longrightarrow> y = x) \<longrightarrow>
      resolvePrefix S P = Inr x"
    using nonempty by (blast intro: resolvePrefix_one unique_match_filter)
  have many: "P \<notin> set S \<and> (\<exists>x\<in>set S. \<exists>y\<in>set S. x \<noteq> y \<and> prefix P x \<and> prefix P y) \<longrightarrow>
      resolvePrefix S P = Inl (AmbiguousIdentifier (filter (prefix P) S))"
    using nonempty by (blast intro: resolvePrefix_many two_matches_filter)
  show ?thesis
    using exact none one many by (simp add: resolveTokenID_def resolvePolicyID_def)
qed

theorem prefix_resolution_witness:
  "resolvePrefix [''aaaa1111'', ''aaaa2222''] ''aaaa1'' = Inr ''aaaa1111''
   \<and> resolvePrefix [''aaaa1111'', ''aaaa2222''] ''aaaa'' =
       Inl (AmbiguousIdentifier [''aaaa1111'', ''aaaa2222''])
   \<and> resolvePrefix [''aaaa1111'', ''aaaa2222''] ''bbbb'' = Inl NotFound
   \<and> resolvePrefix [''aaaa'', ''aaaa1111'', ''aaaa2222''] ''aaaa'' = Inr ''aaaa''
   \<and> resolveTokenID [exampleToken] ''abcd'' = Inr ''abcd1234''"
  using prefix_resolution [of "''aaaa1''" "[''aaaa1111'', ''aaaa2222'']" "''aaaa1111''"]
    prefix_resolution [of "''aaaa''" "[''aaaa1111'', ''aaaa2222'']"]
    prefix_resolution [of "''bbbb''" "[''aaaa1111'', ''aaaa2222'']"]
    prefix_resolution [of "''aaaa''" "[''aaaa'', ''aaaa1111'', ''aaaa2222'']"]
    prefix_resolution [of "''abcd''" "[''abcd1234'']" "''abcd1234''" "[exampleToken]"]
  by (simp add: exampleToken_def)

end
